theory Spec2Isabelle
  imports Complex_Main "HOL-Library.Word"
begin

section \<open>Common data\<close>

text \<open>
  Python \<open>bytes\<close> are lists of octets, Python \<open>str\<close> is \<open>string\<close>.
\<close>

type_synonym byte = "8 word"
type_synonym bytes = "byte list"

text \<open>
  \<open>StreamingResponse(content, media_type=...)\<close>: the iterable of body chunks, in the
  order they are sent, and the media type. The body a client receives is the
  concatenation of the chunks.
\<close>

record StreamingResponse =
  chunks :: "bytes list"
  media_type :: string

definition body :: "StreamingResponse \<Rightarrow> bytes" where
  "body r = concat (chunks r)"

text \<open>
  Errors a request can end in. \<open>HTTPException status_code detail\<close> is raised by a
  handler of the source. \<open>RequestValidationError locs\<close> is what the web framework
  raises itself, before the handler runs, when a declared parameter of the handler
  cannot be bound from the request; \<open>locs\<close> lists the places of the offending
  parameters, each a path of names and positions such as \<open>("body", "prompt")\<close> or
  \<open>("body", 17)\<close>. The framework answers it with status 422.
\<close>

datatype loc_item = Key string | Index nat

type_synonym loc = "loc_item list"

datatype http_error =
    HTTPException nat string
  | RequestValidationError "loc list"

fun status_code :: "http_error \<Rightarrow> nat" where
  "status_code (HTTPException c d) = c"
| "status_code (RequestValidationError locs) = 422"

text \<open>
  Binding several declared parameters: the function is applied when every parameter
  was bound; otherwise the places of all the parameters that were not are collected,
  in the order in which the parameters are bound.
\<close>

fun ap :: "'e list + ('a \<Rightarrow> 'b) \<Rightarrow> 'e + 'a \<Rightarrow> 'e list + 'b" where
  "ap (Inr f) (Inr x) = Inr (f x)"
| "ap (Inr f) (Inl e) = Inl [e]"
| "ap (Inl es) (Inr x) = Inl es"
| "ap (Inl es) (Inl e) = Inl (es @ [e])"

text \<open>
  The parts of a multipart body and the parameters of a query string arrive as lists of
  named values; the framework reads them as a dictionary in which a name given several
  times keeps the value given last.
\<close>

definition last_of :: "'k \<Rightarrow> ('k \<times> 'v) list \<Rightarrow> 'v option" where
  "last_of k kvs = map_of (rev kvs) k"

section \<open>Mock pipelines: \<open>server/local_pipelines.py\<close>\<close>

definition turbo_generate_bg :: "bytes \<Rightarrow> string \<Rightarrow> bytes" where
  "turbo_generate_bg image_bytes prompt = image_bytes"

definition turbo_inpaint :: "bytes \<Rightarrow> bytes \<Rightarrow> string \<Rightarrow> bytes" where
  "turbo_inpaint image_bytes mask_bytes prompt = image_bytes"

definition pix2pix_edit :: "bytes \<Rightarrow> bytes \<Rightarrow> string \<Rightarrow> bytes" where
  "pix2pix_edit image_bytes mask_bytes prompt = image_bytes"

definition gligen_expand :: "bytes \<Rightarrow> string \<Rightarrow> bytes" where
  "gligen_expand image_bytes prompt = image_bytes"

section \<open>Upload router: \<open>server/main.py\<close>\<close>

subsection \<open>Handlers\<close>

text \<open>
  Each handler is given what \<open>await image.read()\<close> (and \<open>await mask.read()\<close>)
  returns for a freshly received upload, the whole content of the file, and the
  prompt. \<open>iter([png_bytes])\<close> is a stream of exactly one chunk.
\<close>

definition generate_bg :: "bytes \<Rightarrow> string \<Rightarrow> StreamingResponse" where
  "generate_bg image_data prompt =
     (let png_bytes = turbo_generate_bg image_data prompt
      in \<lparr>chunks = [png_bytes], media_type = ''image/png''\<rparr>)"

definition inpaint :: "bytes \<Rightarrow> bytes \<Rightarrow> string \<Rightarrow> StreamingResponse" where
  "inpaint image_data mask_data prompt =
     (let png_bytes = turbo_inpaint image_data mask_data prompt
      in \<lparr>chunks = [png_bytes], media_type = ''image/png''\<rparr>)"

definition edit :: "bytes \<Rightarrow> bytes \<Rightarrow> string \<Rightarrow> StreamingResponse" where
  "edit image_data mask_data prompt =
     (let png_bytes = pix2pix_edit image_data mask_data prompt
      in \<lparr>chunks = [png_bytes], media_type = ''image/png''\<rparr>)"

definition expand :: "bytes \<Rightarrow> string \<Rightarrow> StreamingResponse" where
  "expand image_data prompt =
     (let png_bytes = gligen_expand image_data prompt
      in \<lparr>chunks = [png_bytes], media_type = ''image/png''\<rparr>)"

subsection \<open>Binding the declared parameters\<close>

text \<open>
  A request to the upload router: the parts of its multipart body, each a file or a
  plain text field, and the parameters of its query string, both in the order received.
\<close>

datatype part = FilePart bytes | TextPart string

record upload_request =
  parts :: "(string \<times> part) list"
  query :: "(string \<times> string) list"

text \<open>
  What a handler's signature declares to the framework. A parameter of type
  \<open>UploadFile\<close> with no default is a required file part of the body. \<open>prompt: str =
  Form("")\<close> is a text field of the body that takes the default when the request has
  none, or an empty one. A bare \<open>prompt: str\<close> has no default and no \<open>Form\<close> marker: the
  framework reads it from the query string and it is required.
\<close>

definition File_required :: "string \<Rightarrow> upload_request \<Rightarrow> loc + bytes" where
  "File_required name r =
     (case last_of name (parts r) of
        Some (FilePart b) \<Rightarrow> Inr b
      | Some (TextPart v) \<Rightarrow> Inl [Key ''body'', Key name]
      | None \<Rightarrow> Inl [Key ''body'', Key name])"

definition Form_default :: "string \<Rightarrow> string \<Rightarrow> upload_request \<Rightarrow> loc + string" where
  "Form_default name dflt r =
     (case last_of name (parts r) of
        None \<Rightarrow> Inr dflt
      | Some (TextPart v) \<Rightarrow> Inr (if v = [] then dflt else v)
      | Some (FilePart b) \<Rightarrow> Inl [Key ''body'', Key name])"

definition Query_required :: "string \<Rightarrow> upload_request \<Rightarrow> loc + string" where
  "Query_required name r =
     (case last_of name (query r) of
        None \<Rightarrow> Inl [Key ''query'', Key name]
      | Some v \<Rightarrow> Inr v)"

text \<open>
  The arguments each handler is called with, or the places of all the parameters that
  could not be bound. The framework binds the parameters of the query string before
  those of the body, and those of the body in the order of the signature.
\<close>

definition generate_bg_args :: "upload_request \<Rightarrow> loc list + (bytes \<times> string)" where
  "generate_bg_args r =
     ap (ap (Inr (\<lambda>i p. (i, p)))
       (File_required ''image'' r))
       (Form_default ''prompt'' '''' r)"

definition inpaint_args :: "upload_request \<Rightarrow> loc list + (bytes \<times> bytes \<times> string)" where
  "inpaint_args r =
     ap (ap (ap (Inr (\<lambda>i m p. (i, m, p)))
       (File_required ''image'' r))
       (File_required ''mask'' r))
       (Form_default ''prompt'' '''' r)"

definition edit_args :: "upload_request \<Rightarrow> loc list + (bytes \<times> bytes \<times> string)" where
  "edit_args r =
     ap (ap (ap (Inr (\<lambda>p i m. (i, m, p)))
       (Query_required ''prompt'' r))
       (File_required ''image'' r))
       (File_required ''mask'' r)"

definition expand_args :: "upload_request \<Rightarrow> loc list + (bytes \<times> string)" where
  "expand_args r =
     ap (ap (Inr (\<lambda>p i. (i, p)))
       (Query_required ''prompt'' r))
       (File_required ''image'' r)"

subsection \<open>Endpoints\<close>

text \<open>
  \<open>@app.post(path)\<close>: the handler runs only on successfully bound arguments; otherwise
  the request is answered with the validation error.
\<close>

definition post_generate_bg :: "upload_request \<Rightarrow> http_error + StreamingResponse" where
  "post_generate_bg r =
     (case generate_bg_args r of
        Inl locs \<Rightarrow> Inl (RequestValidationError locs)
      | Inr (image_data, prompt) \<Rightarrow> Inr (generate_bg image_data prompt))"

definition post_inpaint :: "upload_request \<Rightarrow> http_error + StreamingResponse" where
  "post_inpaint r =
     (case inpaint_args r of
        Inl locs \<Rightarrow> Inl (RequestValidationError locs)
      | Inr (image_data, mask_data, prompt) \<Rightarrow> Inr (inpaint image_data mask_data prompt))"

definition post_edit :: "upload_request \<Rightarrow> http_error + StreamingResponse" where
  "post_edit r =
     (case edit_args r of
        Inl locs \<Rightarrow> Inl (RequestValidationError locs)
      | Inr (image_data, mask_data, prompt) \<Rightarrow> Inr (edit image_data mask_data prompt))"

definition post_expand :: "upload_request \<Rightarrow> http_error + StreamingResponse" where
  "post_expand r =
     (case expand_args r of
        Inl locs \<Rightarrow> Inl (RequestValidationError locs)
      | Inr (image_data, prompt) \<Rightarrow> Inr (expand image_data prompt))"

section \<open>Pipeline-backed service: \<open>server/simple_backend.py\<close>\<close>

subsection \<open>Data\<close>

text \<open>
  A Python \<open>float\<close> is an IEEE double. The service does no arithmetic on floats, it
  passes them on; a finite double is named by the real number it is, and the three
  values that are no number have a name each.
\<close>

datatype pyfloat = Finite real | PosInf | NegInf | NaN

record GenerateRequest =
  prompt :: string
  width :: int
  height :: int
  num_inference_steps :: int
  guidance_scale :: pyfloat

record HealthResponse =
  status :: string
  models :: "string list"

text \<open>
  A raised Python exception that is an instance of \<open>Exception\<close>, which is what
  \<open>except Exception as e\<close> catches: its class name and \<open>str(e)\<close>.
\<close>

datatype exn = Exception string string

fun str_of :: "exn \<Rightarrow> string" where
  "str_of (Exception cls msg) = msg"

datatype level = INFO | ERROR

text \<open>
  The keyword arguments of one pipeline invocation:
  \<open>(prompt, width, height, num_inference_steps, guidance_scale)\<close>.
\<close>

type_synonym pipe_kwargs = "string \<times> int \<times> int \<times> int \<times> pyfloat"

text \<open>
  The state of the process. \<open>pipe\<close> is the module's global variable, \<open>None\<close> or the
  loaded pipeline object. \<open>calls\<close> records every invocation of the pipeline, oldest
  first, and \<open>logged\<close> every message given to the logger: they are the effects of the
  handlers on the world outside the module.
\<close>

record 'p server =
  pipe :: "'p option"
  calls :: "pipe_kwargs list"
  logged :: "(level \<times> string) list"

definition logger_info :: "string \<Rightarrow> 'p server \<Rightarrow> 'p server" where
  "logger_info msg s = s\<lparr>logged := logged s @ [(INFO, msg)]\<rparr>"

definition logger_error :: "string \<Rightarrow> 'p server \<Rightarrow> 'p server" where
  "logger_error msg s = s\<lparr>logged := logged s @ [(ERROR, msg)]\<rparr>"

text \<open>The state when the module has been imported: \<open>pipe = None\<close>.\<close>

definition module_state :: "'p server" where
  "module_state = \<lparr>pipe = None, calls = [], logged = []\<rparr>"

subsection \<open>The external libraries\<close>

text \<open>
  The model library and the image library are not part of the repository; the service
  is parametric in them. \<open>from_pretrained name dtype use_auth_token\<close> and
  \<open>to_device p device\<close> (\<open>p.to(device)\<close>) return a pipeline object or raise.
\<close>

datatype torch_dtype = float16 | float32

record 'p torch =
  from_pretrained :: "string \<Rightarrow> torch_dtype \<Rightarrow> bool \<Rightarrow> exn + 'p"
  cuda_is_available :: bool
  to_device :: "'p \<Rightarrow> string \<Rightarrow> exn + 'p"

text \<open>
  \<open>pipe_call p earlier kwargs\<close> is the outcome of \<open>p(**kwargs)\<close>: the list
  \<open>.images\<close> of the output, or the exception raised. Sampling is random and the
  object has a state of its own, so the outcome may depend on the invocations made
  before, \<open>earlier\<close>. \<open>save_png image\<close> is the content of the buffer after
  \<open>image.save(buffer, format='PNG')\<close>, or the exception raised.
\<close>

record ('p, 'img) diffusers =
  pipe_call :: "'p \<Rightarrow> pipe_kwargs list \<Rightarrow> pipe_kwargs \<Rightarrow> exn + 'img list"
  save_png :: "'img \<Rightarrow> exn + bytes"

text \<open>\<open>xs[0]\<close> of a Python list raises \<open>IndexError\<close> on the empty list.\<close>

fun item0 :: "'a list \<Rightarrow> exn + 'a" where
  "item0 [] = Inl (Exception ''IndexError'' ''list index out of range'')"
| "item0 (x # xs) = Inr x"

text \<open>\<open>p(**kwargs).images[0]\<close>: the first image of the output, or the exception raised.\<close>

definition images0 ::
  "('p, 'img) diffusers \<Rightarrow> 'p \<Rightarrow> pipe_kwargs list \<Rightarrow> pipe_kwargs \<Rightarrow> exn + 'img" where
  "images0 lib p earlier kwargs =
     (case pipe_call lib p earlier kwargs of
        Inl e \<Rightarrow> Inl e
      | Inr images \<Rightarrow> item0 images)"

text \<open>
  Iterating over an \<open>io.BytesIO\<close> yields its lines, each with its terminating newline
  byte (10), the last one possibly without; a response streamed from a \<open>BytesIO\<close>
  sends these as its chunks.
\<close>

fun lines_from :: "bytes \<Rightarrow> bytes \<Rightarrow> bytes list" where
  "lines_from cur [] = (if cur = [] then [] else [cur])"
| "lines_from cur (b # bs) =
     (if b = 10 then (cur @ [b]) # lines_from [] bs else lines_from (cur @ [b]) bs)"

definition BytesIO_iter :: "bytes \<Rightarrow> bytes list" where
  "BytesIO_iter data = lines_from [] data"

subsection \<open>Startup hook\<close>

definition startup_event :: "'p torch \<Rightarrow> 'p server \<Rightarrow> 'p server" where
  "startup_event lib s =
     (let s1 = logger_info ''Loading Stable Diffusion pipeline...'' s
      in case from_pretrained lib ''runwayml/stable-diffusion-v1-5''
                (if cuda_is_available lib then float16 else float32) False of
           Inl e \<Rightarrow>
             (logger_error (''Failed to load pipeline: '' @ str_of e) s1)\<lparr>pipe := None\<rparr>
         | Inr p \<Rightarrow>
             (let s2 = s1\<lparr>pipe := Some p\<rparr>;
                  device = (if cuda_is_available lib then ''cuda'' else ''cpu'')
              in case to_device lib p device of
                   Inl e \<Rightarrow>
                     (logger_error (''Failed to load pipeline: '' @ str_of e) s2)
                       \<lparr>pipe := None\<rparr>
                 | Inr p' \<Rightarrow>
                     logger_info (''Pipeline loaded successfully on '' @ device)
                       (s2\<lparr>pipe := Some p'\<rparr>)))"

subsection \<open>Handlers\<close>

text \<open>Every handler returns what it returns or raises, and the state it leaves.\<close>

definition health_check :: "'p server \<Rightarrow> HealthResponse \<times> 'p server" where
  "health_check s =
     (\<lparr>status = (if pipe s \<noteq> None then ''healthy'' else ''unhealthy''),
       models = (if pipe s \<noteq> None then [''stable-diffusion-v1-5''] else [])\<rparr>, s)"

definition get_models :: "'p server \<Rightarrow> (string \<times> string) list list \<times> 'p server" where
  "get_models s =
     ([[(''title'', ''stable-diffusion-v1-5''), (''model_name'', ''stable-diffusion-v1-5'')]], s)"

text \<open>The \<open>except Exception as e\<close> branch of \<open>generate_image\<close>.\<close>

definition generation_failed ::
  "exn \<Rightarrow> 'p server \<Rightarrow> (http_error + StreamingResponse) \<times> 'p server" where
  "generation_failed e s =
     (Inl (HTTPException 500 (str_of e)),
      logger_error (''Error generating image: '' @ str_of e) s)"

text \<open>The keyword arguments \<open>generate_image\<close> passes to the pipeline.\<close>

definition kwargs_of :: "GenerateRequest \<Rightarrow> pipe_kwargs" where
  "kwargs_of request =
     (prompt request, width request, height request,
      num_inference_steps request, guidance_scale request)"

definition generate_image ::
  "('p, 'img) diffusers \<Rightarrow> GenerateRequest \<Rightarrow> 'p server
     \<Rightarrow> (http_error + StreamingResponse) \<times> 'p server" where
  "generate_image lib request s =
     (case pipe s of
        None \<Rightarrow> (Inl (HTTPException 503 ''Pipeline not loaded''), s)
      | Some p \<Rightarrow>
          (let s1 = logger_info (''Generating image with prompt: '' @ prompt request) s;
               kwargs = kwargs_of request;
               s2 = s1\<lparr>calls := calls s1 @ [kwargs]\<rparr>
           in case images0 lib p (calls s1) kwargs of
                Inl e \<Rightarrow> generation_failed e s2
              | Inr image0 \<Rightarrow>
                  (case save_png lib image0 of
                     Inl e \<Rightarrow> generation_failed e s2
                   | Inr png \<Rightarrow>
                       (Inr \<lparr>chunks = BytesIO_iter png, media_type = ''image/png''\<rparr>,
                        s2))))"

definition generate_background ::
  "('p, 'img) diffusers \<Rightarrow> GenerateRequest \<Rightarrow> 'p server
     \<Rightarrow> (http_error + StreamingResponse) \<times> 'p server" where
  "generate_background lib request s = generate_image lib request s"

subsection \<open>Binding the JSON body\<close>

text \<open>
  A handler that declares \<open>request: GenerateRequest\<close> is given the JSON body of the
  request, decoded by \<open>json.loads\<close> and validated against the model class. A decoded
  JSON object is a dictionary.
\<close>

datatype json =
    JNull
  | JBool bool
  | JInt int
  | JFloat pyfloat
  | JString string
  | JArray "json list"
  | JObject "(string \<times> json) list"

text \<open>
  What the framework has read of the body when it binds the parameter: nothing, for an
  empty body; the position at which \<open>json.loads\<close> raised \<open>JSONDecodeError\<close>; or the
  document \<open>json.loads\<close> returned.
\<close>

datatype body_json = NoBody | JSONDecodeError nat | Document json

text \<open>
  The validation library decides which JSON values it accepts for a field of type
  \<open>str\<close>, \<open>int\<close> and \<open>float\<close>, and what it converts them to; the service is
  parametric in it. \<open>plain\<close> accepts a JSON value of the field's own type, and an
  integer for a float.
\<close>

record pydantic =
  validate_str :: "json \<Rightarrow> string option"
  validate_int :: "json \<Rightarrow> int option"
  validate_float :: "json \<Rightarrow> pyfloat option"

definition plain :: pydantic where
  "plain =
     \<lparr>validate_str = (\<lambda>j. case j of JString x \<Rightarrow> Some x | _ \<Rightarrow> None),
      validate_int = (\<lambda>j. case j of JInt i \<Rightarrow> Some i | _ \<Rightarrow> None),
      validate_float =
        (\<lambda>j. case j of JFloat x \<Rightarrow> Some x | JInt i \<Rightarrow> Some (Finite (of_int i))
              | _ \<Rightarrow> None)\<rparr>"

text \<open>
  One declared field of the model class: an absent key takes the default, and is an
  error when the field has none; a present key is validated.
\<close>

definition field ::
  "(json \<Rightarrow> 'a option) \<Rightarrow> 'a option \<Rightarrow> (string \<times> json) list \<Rightarrow> string \<Rightarrow> loc + 'a" where
  "field validate dflt obj name =
     (case map_of obj name of
        None \<Rightarrow> (case dflt of None \<Rightarrow> Inl [Key ''body'', Key name] | Some d \<Rightarrow> Inr d)
      | Some j \<Rightarrow>
          (case validate j of None \<Rightarrow> Inl [Key ''body'', Key name] | Some x \<Rightarrow> Inr x))"

text \<open>The fields of \<open>GenerateRequest\<close> and their defaults, as the class declares them.\<close>

definition validate_GenerateRequest :: "pydantic \<Rightarrow> json \<Rightarrow> loc list + GenerateRequest" where
  "validate_GenerateRequest v j =
     (case j of
        JObject obj \<Rightarrow>
          ap (ap (ap (ap (ap
            (Inr (\<lambda>p w h n g.
               \<lparr>prompt = p, width = w, height = h,
                num_inference_steps = n, guidance_scale = g\<rparr>))
            (field (validate_str v) None obj ''prompt''))
            (field (validate_int v) (Some 512) obj ''width''))
            (field (validate_int v) (Some 512) obj ''height''))
            (field (validate_int v) (Some 20) obj ''num_inference_steps''))
            (field (validate_float v) (Some (Finite 7.5)) obj ''guidance_scale'')
      | _ \<Rightarrow> Inl [[Key ''body'']])"

definition bind_GenerateRequest :: "pydantic \<Rightarrow> body_json \<Rightarrow> loc list + GenerateRequest" where
  "bind_GenerateRequest v b =
     (case b of
        NoBody \<Rightarrow> Inl [[Key ''body'']]
      | JSONDecodeError pos \<Rightarrow> Inl [[Key ''body'', Index pos]]
      | Document j \<Rightarrow> validate_GenerateRequest v j)"

subsection \<open>Endpoints\<close>

text \<open>
  \<open>GET /health\<close> and \<open>GET /sdapi/v1/sd-models\<close> declare no parameter: the endpoints are
  \<open>health_check\<close> and \<open>get_models\<close>. The two \<open>POST\<close> endpoints run their handler on
  the validated body.
\<close>

definition post_txt2img ::
  "pydantic \<Rightarrow> ('p, 'img) diffusers \<Rightarrow> body_json \<Rightarrow> 'p server
     \<Rightarrow> (http_error + StreamingResponse) \<times> 'p server" where
  "post_txt2img v lib b s =
     (case bind_GenerateRequest v b of
        Inl locs \<Rightarrow> (Inl (RequestValidationError locs), s)
      | Inr request \<Rightarrow> generate_image lib request s)"

definition post_generate_bg_json ::
  "pydantic \<Rightarrow> ('p, 'img) diffusers \<Rightarrow> body_json \<Rightarrow> 'p server
     \<Rightarrow> (http_error + StreamingResponse) \<times> 'p server" where
  "post_generate_bg_json v lib b s =
     (case bind_GenerateRequest v b of
        Inl locs \<Rightarrow> (Inl (RequestValidationError locs), s)
      | Inr request \<Rightarrow> generate_background lib request s)"

subsection \<open>The JSON decoder\<close>

text \<open>
  The body of a request, as characters, one for each byte. \<open>json.loads\<close> is part of
  Python, not of the repository; what it does is modelled here for the bodies made of
  ASCII characters other than NUL (which it reads as UTF-8), as long as no string has a
  backslash escape, no integer has more than 4300 digits and arrays and objects are
  nested at most 64 deep. On any other body the model gives no answer (\<open>Unmodelled\<close>).
  The functions follow \<open>json.decoder\<close> and \<open>json.scanner\<close>: \<open>scan_once\<close>,
  \<open>JSONArray\<close>, \<open>JSONObject\<close>, \<open>scanstring\<close> and the regular expression of numbers.
  The flag \<open>consts\<close> says whether the literals \<open>NaN\<close>, \<open>Infinity\<close> and \<open>-Infinity\<close> are
  read: \<open>json.loads\<close> reads them; the JSON grammar of RFC 8259 does not have them, and is
  otherwise the grammar \<open>json.loads\<close> reads.
\<close>

text \<open>
  The outcome of scanning: outside the part of the decoder that is modelled; a
  \<open>JSONDecodeError\<close>, with the number of characters that remained at the place of the error
  (\<open>None\<close> where the place depends on the version of the decoder); or a result.
\<close>

datatype 'a scanned = Unmodelled | Invalid "nat option" | Scanned 'a

definition is_ws :: "char \<Rightarrow> bool" where
  "is_ws c = (c = CHR '' '' \<or> c = CHR 0x09 \<or> c = CHR 0x0A \<or> c = CHR 0x0D)"

definition skip_ws :: "string \<Rightarrow> string" where
  "skip_ws s = dropWhile is_ws s"

definition is_digit :: "char \<Rightarrow> bool" where
  "is_digit c = (48 \<le> (of_char c :: nat) \<and> (of_char c :: nat) \<le> 57)"

definition int_of_digits :: "string \<Rightarrow> int" where
  "int_of_digits ds = foldl (\<lambda>n c. 10 * n + (of_char c - 48)) 0 ds"

fun dict_set :: "'k \<Rightarrow> 'v \<Rightarrow> ('k \<times> 'v) list \<Rightarrow> ('k \<times> 'v) list" where
  "dict_set k v [] = [(k, v)]"
| "dict_set k v ((k', v') # kvs) =
     (if k' = k then (k, v) # kvs else (k', v') # dict_set k v kvs)"

fun starts :: "string \<Rightarrow> string \<Rightarrow> string option" where
  "starts [] s = Some s"
| "starts (p # ps) [] = None"
| "starts (p # ps) (c # cs) = (if p = c then starts ps cs else None)"

fun scanstring :: "nat \<Rightarrow> string \<Rightarrow> string \<Rightarrow> (string \<times> string) scanned" where
  "scanstring begin acc [] = Invalid (Some begin)"
| "scanstring begin acc (c # cs) =
     (if c = CHR 0x22 then Scanned (rev acc, cs)
      else if c = CHR 0x5C then Unmodelled
      else if (of_char c :: nat) < 32 then Invalid (Some (length (c # cs)))
      else scanstring begin (c # acc) cs)"

definition match_integer :: "string \<Rightarrow> (bool \<times> string \<times> string) option" where
  "match_integer s =
     (let (neg, t) = (case starts ''-'' s of Some u \<Rightarrow> (True, u) | None \<Rightarrow> (False, s))
      in case t of
           [] \<Rightarrow> None
         | c # u \<Rightarrow>
             if c = CHR ''0'' then Some (neg, [c], u)
             else if is_digit c then Some (neg, c # takeWhile is_digit u, dropWhile is_digit u)
             else None)"

definition match_frac :: "string \<Rightarrow> string option \<times> string" where
  "match_frac s =
     (case starts ''.'' s of
        Some u \<Rightarrow>
          if takeWhile is_digit u \<noteq> []
          then (Some (takeWhile is_digit u), dropWhile is_digit u)
          else (None, s)
      | None \<Rightarrow> (None, s))"

definition match_exp :: "string \<Rightarrow> (bool \<times> string) option \<times> string" where
  "match_exp s =
     (case (case starts ''e'' s of Some u \<Rightarrow> Some u | None \<Rightarrow> starts ''E'' s) of
        Some u \<Rightarrow>
          (let (neg, w) = (case starts ''-'' u of
                             Some x \<Rightarrow> (True, x)
                           | None \<Rightarrow> (case starts ''+'' u of Some x \<Rightarrow> (False, x) | None \<Rightarrow> (False, u)))
           in if takeWhile is_digit w \<noteq> []
              then (Some (neg, takeWhile is_digit w), dropWhile is_digit w)
              else (None, s))
      | None \<Rightarrow> (None, s))"

definition py_float :: "bool \<Rightarrow> real \<Rightarrow> pyfloat" where
  "py_float neg x =
     (if 2 ^ 1024 - 2 ^ 970 \<le> x then (if neg then NegInf else PosInf)
      else Finite (if neg then - x else x))"

definition number :: "string \<Rightarrow> (json \<times> string) scanned option" where
  "number s =
     (case match_integer s of
        None \<Rightarrow> None
      | Some (neg, ds, t) \<Rightarrow>
          (case match_frac t of
             (fr, u) \<Rightarrow>
               (case match_exp u of
                  (ex, w) \<Rightarrow>
                    if fr = None \<and> ex = None then
                      (if 4300 < length ds then Some Unmodelled
                       else Some (Scanned
                         (JInt (if neg then - int_of_digits ds else int_of_digits ds), w)))
                    else
                      (let fs = (case fr of None \<Rightarrow> [] | Some f \<Rightarrow> f);
                           m = real_of_int (int_of_digits (ds @ fs)) / 10 ^ length fs;
                           x = (case ex of
                                  None \<Rightarrow> m
                                | Some (eneg, es) \<Rightarrow>
                                    if eneg then m / 10 ^ nat (int_of_digits es)
                                    else m * 10 ^ nat (int_of_digits es))
                       in Some (Scanned (JFloat (py_float neg x), w))))))"

definition scan_atom :: "bool \<Rightarrow> string \<Rightarrow> (json \<times> string) scanned" where
  "scan_atom consts s =
     (case starts [CHR 0x22] s of
        Some t \<Rightarrow>
          (case scanstring (length s) [] t of
             Scanned (str, u) \<Rightarrow> Scanned (JString str, u)
           | Invalid r \<Rightarrow> Invalid r
           | Unmodelled \<Rightarrow> Unmodelled)
      | None \<Rightarrow>
     (case starts ''null'' s of
        Some t \<Rightarrow> Scanned (JNull, t)
      | None \<Rightarrow>
     (case starts ''true'' s of
        Some t \<Rightarrow> Scanned (JBool True, t)
      | None \<Rightarrow>
     (case starts ''false'' s of
        Some t \<Rightarrow> Scanned (JBool False, t)
      | None \<Rightarrow>
     (case number s of
        Some r \<Rightarrow> r
      | None \<Rightarrow>
     (case starts ''NaN'' s of
        Some t \<Rightarrow> if consts then Scanned (JFloat NaN, t) else Invalid (Some (length s))
      | None \<Rightarrow>
     (case starts ''Infinity'' s of
        Some t \<Rightarrow> if consts then Scanned (JFloat PosInf, t) else Invalid (Some (length s))
      | None \<Rightarrow>
     (case starts ''-Infinity'' s of
        Some t \<Rightarrow> if consts then Scanned (JFloat NegInf, t) else Invalid (Some (length s))
      | None \<Rightarrow> Invalid (Some (length s))))))))))"

text \<open>
  After a value inside an array or an object: the closing bracket; a comma, with what
  follows it and its blanks; a comma followed by the closing bracket; or something else
  (with the number of characters that remain there).
\<close>

datatype after = Close string | Comma string | Trailing | Neither nat

definition after_value :: "char \<Rightarrow> string \<Rightarrow> after" where
  "after_value close s =
     (case skip_ws s of
        [] \<Rightarrow> Neither 0
      | c # t \<Rightarrow>
          if c = close then Close t
          else if c = CHR '','' then
            (case starts [close] (skip_ws t) of
               Some u \<Rightarrow> Trailing
             | None \<Rightarrow> Comma (skip_ws t))
          else Neither (length (c # t)))"

definition key_colon :: "string \<Rightarrow> (string \<times> string) scanned" where
  "key_colon s =
     (case starts [CHR 0x22] s of
        None \<Rightarrow> Invalid (Some (length s))
      | Some t \<Rightarrow>
          (case scanstring (length s) [] t of
             Unmodelled \<Rightarrow> Unmodelled
           | Invalid r \<Rightarrow> Invalid r
           | Scanned (key, u) \<Rightarrow>
               (case starts '':'' (skip_ws u) of
                  None \<Rightarrow> Invalid (Some (length (skip_ws u)))
                | Some w \<Rightarrow> Scanned (key, skip_ws w))))"

fun scan_once :: "nat \<Rightarrow> nat \<Rightarrow> bool \<Rightarrow> string \<Rightarrow> (json \<times> string) scanned"
  and JSONArray :: "nat \<Rightarrow> nat \<Rightarrow> bool \<Rightarrow> json list \<Rightarrow> string \<Rightarrow> (json \<times> string) scanned"
  and JSONObject ::
    "nat \<Rightarrow> nat \<Rightarrow> bool \<Rightarrow> (string \<times> json) list \<Rightarrow> string \<Rightarrow> (json \<times> string) scanned"
where
  "scan_once 0 depth consts s = Unmodelled"
| "scan_once (Suc fuel) depth consts s =
     (case (starts ''['' s, starts ''{'' s) of
        (Some t, _) \<Rightarrow>
          (if depth = 0 then Unmodelled
           else case starts '']'' (skip_ws t) of
                  Some u \<Rightarrow> Scanned (JArray [], u)
                | None \<Rightarrow> JSONArray fuel (depth - 1) consts [] (skip_ws t))
      | (None, Some t) \<Rightarrow>
          (if depth = 0 then Unmodelled
           else case starts ''}'' (skip_ws t) of
                  Some u \<Rightarrow> Scanned (JObject [], u)
                | None \<Rightarrow> JSONObject fuel (depth - 1) consts [] (skip_ws t))
      | (None, None) \<Rightarrow> scan_atom consts s)"
| "JSONArray 0 depth consts vs s = Unmodelled"
| "JSONArray (Suc fuel) depth consts vs s =
     (case scan_once fuel depth consts s of
        Unmodelled \<Rightarrow> Unmodelled
      | Invalid r \<Rightarrow> Invalid r
      | Scanned (v, t) \<Rightarrow>
          (case after_value (CHR '']'') t of
             Close u \<Rightarrow> Scanned (JArray (vs @ [v]), u)
           | Comma u \<Rightarrow> JSONArray fuel depth consts (vs @ [v]) u
           | Trailing \<Rightarrow> Invalid None
           | Neither r \<Rightarrow> Invalid (Some r)))"
| "JSONObject 0 depth consts kvs s = Unmodelled"
| "JSONObject (Suc fuel) depth consts kvs s =
     (case key_colon s of
        Unmodelled \<Rightarrow> Unmodelled
      | Invalid r \<Rightarrow> Invalid r
      | Scanned (key, t) \<Rightarrow>
          (case scan_once fuel depth consts t of
             Unmodelled \<Rightarrow> Unmodelled
           | Invalid r \<Rightarrow> Invalid r
           | Scanned (v, u) \<Rightarrow>
               (case after_value (CHR ''}'') u of
                  Close w \<Rightarrow> Scanned (JObject (dict_set key v kvs), w)
                | Comma w \<Rightarrow> JSONObject fuel depth consts (dict_set key v kvs) w
                | Trailing \<Rightarrow> Invalid None
                | Neither r \<Rightarrow> Invalid (Some r))))"


text \<open>
  \<open>json.loads(s)\<close>: the document it returns, or the position of the
  \<open>JSONDecodeError\<close> it raises (\<open>None\<close> where the position depends on the version of
  Python: a comma before a closing bracket).
\<close>

datatype loaded = Outside | Raises "nat option" | Returns json





subsection \<open>Request traffic\<close>

text \<open>
  The four routes of the application, what each answers, and a run of the service
  over a sequence of requests, served one after the other.
\<close>

datatype request =
    GetHealth
  | GetSdModels
  | PostTxt2img body_json
  | PostGenerateBg body_json

datatype response =
    HealthBody HealthResponse
  | ModelsBody "(string \<times> string) list list"
  | ImageResult "http_error + StreamingResponse"

fun serve ::
  "pydantic \<Rightarrow> ('p, 'img) diffusers \<Rightarrow> request \<Rightarrow> 'p server \<Rightarrow> response \<times> 'p server" where
  "serve v lib GetHealth s = (case health_check s of (r, s') \<Rightarrow> (HealthBody r, s'))"
| "serve v lib GetSdModels s = (case get_models s of (r, s') \<Rightarrow> (ModelsBody r, s'))"
| "serve v lib (PostTxt2img b) s =
     (case post_txt2img v lib b s of (r, s') \<Rightarrow> (ImageResult r, s'))"
| "serve v lib (PostGenerateBg b) s =
     (case post_generate_bg_json v lib b s of (r, s') \<Rightarrow> (ImageResult r, s'))"

fun serve_all ::
  "pydantic \<Rightarrow> ('p, 'img) diffusers \<Rightarrow> request list \<Rightarrow> 'p server
     \<Rightarrow> response list \<times> 'p server" where
  "serve_all v lib [] s = ([], s)"
| "serve_all v lib (rq # rqs) s =
     (case serve v lib rq s of
        (r, s') \<Rightarrow> (case serve_all v lib rqs s' of (rs, s'') \<Rightarrow> (r # rs, s'')))"

subsection \<open>Sample libraries\<close>

text \<open>
  A small instance of the external libraries, to run the service on concrete
  requests: an image is its size, the pipeline returns one image of the requested
  size and refuses sizes that are not positive, and the encoder knows one size only,
  for which it writes a fixed sequence of bytes. The pipeline of \<open>sample_exhausted\<close>
  raises on every invocation.
\<close>

definition sample_diffusers :: "(unit, int \<times> int) diffusers" where
  "sample_diffusers =
     \<lparr>pipe_call = (\<lambda>p earlier (pr, w, h, n, g).
        if 0 < w \<and> 0 < h then Inr [(w, h)]
        else Inl (Exception ''ValueError'' ''size must be positive'')),
      save_png = (\<lambda>sz.
        if sz = (512, 512) then Inr [137, 80, 78, 71, 13, 10, 2, 0, 2, 0]
        else Inl (Exception ''OSError'' ''cannot write this size''))\<rparr>"


definition sample_torch :: "bool \<Rightarrow> unit torch" where
  "sample_torch ok =
     \<lparr>from_pretrained = (\<lambda>name dtype tok.
        if ok then Inr () else Inl (Exception ''OSError'' ''model not found'')),
      cuda_is_available = False,
      to_device = (\<lambda>p device. Inr p)\<rparr>"

section \<open>Properties of the upload router\<close>

lemmas mock_defs =
  turbo_generate_bg_def turbo_inpaint_def pix2pix_edit_def gligen_expand_def

lemmas handler_defs = generate_bg_def inpaint_def edit_def expand_def

lemmas binding_defs =
  File_required_def Form_default_def Query_required_def
  generate_bg_args_def inpaint_args_def edit_args_def expand_args_def

lemmas endpoint_defs = post_generate_bg_def post_inpaint_def post_edit_def post_expand_def

lemma isl_ap: "isl a \<Longrightarrow> isl (ap a x)"
  by (cases a; cases x) simp_all

text \<open>
  C1. Each of the four mock generation functions returns exactly its input image
  bytes, whatever the mask and the prompt. Each of the four handlers answers with a
  stream of one chunk, of media type \<open>image/png\<close>, whose body is the uploaded image;
  so does each endpoint on a request that carries the uploads and the prompt where the
  handler's signature expects them.
\<close>

theorem mock_endpoints_return_input:
  "turbo_generate_bg img p = img \<and>
   turbo_inpaint img msk p = img \<and>
   pix2pix_edit img msk p = img \<and>
   gligen_expand img p = img \<and>
   generate_bg img p = \<lparr>chunks = [img], media_type = ''image/png''\<rparr> \<and>
   inpaint img msk p = \<lparr>chunks = [img], media_type = ''image/png''\<rparr> \<and>
   edit img msk p = \<lparr>chunks = [img], media_type = ''image/png''\<rparr> \<and>
   expand img p = \<lparr>chunks = [img], media_type = ''image/png''\<rparr> \<and>
   body (generate_bg img p) = img \<and>
   body (inpaint img msk p) = img \<and>
   body (edit img msk p) = img \<and>
   body (expand img p) = img \<and>
   post_generate_bg
       \<lparr>parts = [(''image'', FilePart img), (''prompt'', TextPart p)], query = []\<rparr>
     = Inr \<lparr>chunks = [img], media_type = ''image/png''\<rparr> \<and>
   post_inpaint
       \<lparr>parts = [(''image'', FilePart img), (''mask'', FilePart msk), (''prompt'', TextPart p)],
        query = []\<rparr>
     = Inr \<lparr>chunks = [img], media_type = ''image/png''\<rparr> \<and>
   post_edit
       \<lparr>parts = [(''image'', FilePart img), (''mask'', FilePart msk)],
        query = [(''prompt'', p)]\<rparr>
     = Inr \<lparr>chunks = [img], media_type = ''image/png''\<rparr> \<and>
   post_expand \<lparr>parts = [(''image'', FilePart img)], query = [(''prompt'', p)]\<rparr>
     = Inr \<lparr>chunks = [img], media_type = ''image/png''\<rparr>"
  by (simp add: mock_defs handler_defs binding_defs endpoint_defs body_def last_of_def)

text \<open>
  C10. For \<open>/generate_bg\<close> and \<open>/inpaint\<close> the prompt is an optional text field of the
  body: with the file uploads present, the handler is called with the prompt the body
  gives, and with the empty prompt when the body gives none. For \<open>/edit\<close> and
  \<open>/expand\<close> the prompt is a required parameter of the query string: with the file
  uploads present, the handler is called with the prompt of the query string, whatever
  the body holds; when the query string has no prompt the request is answered with a
  validation error (status 422) naming the missing \<open>prompt\<close>, the arguments are not
  bound and the handler is not called, also when the body has a \<open>prompt\<close> field.
  \<open>/generate_bg\<close> and \<open>/expand\<close> need the \<open>image\<close> upload only.
\<close>

theorem prompt_optional_or_required:
  "(last_of ''image'' (parts r) = Some (FilePart img) \<and> last_of ''prompt'' (parts r) = None \<longrightarrow>
      generate_bg_args r = Inr (img, '''') \<and>
      post_generate_bg r = Inr (generate_bg img '''')) \<and>
   (last_of ''image'' (parts r) = Some (FilePart img) \<and>
    last_of ''prompt'' (parts r) = Some (TextPart p) \<longrightarrow>
      generate_bg_args r = Inr (img, p) \<and>
      post_generate_bg r = Inr (generate_bg img p)) \<and>
   (last_of ''image'' (parts r) = Some (FilePart img) \<and>
    last_of ''mask'' (parts r) = Some (FilePart msk) \<and> last_of ''prompt'' (parts r) = None \<longrightarrow>
      inpaint_args r = Inr (img, msk, '''') \<and>
      post_inpaint r = Inr (inpaint img msk '''')) \<and>
   (last_of ''image'' (parts r) = Some (FilePart img) \<and>
    last_of ''mask'' (parts r) = Some (FilePart msk) \<and>
    last_of ''prompt'' (parts r) = Some (TextPart p) \<longrightarrow>
      inpaint_args r = Inr (img, msk, p) \<and>
      post_inpaint r = Inr (inpaint img msk p)) \<and>
   (last_of ''prompt'' (query r) = None \<longrightarrow>
      isl (expand_args r) \<and> isl (post_expand r) \<and> isl (edit_args r) \<and> isl (post_edit r)) \<and>
   (last_of ''image'' (parts r) = Some (FilePart img) \<and> last_of ''prompt'' (query r) = None \<longrightarrow>
      expand_args r = Inl [[Key ''query'', Key ''prompt'']] \<and>
      post_expand r = Inl (RequestValidationError [[Key ''query'', Key ''prompt'']])) \<and>
   (last_of ''image'' (parts r) = Some (FilePart img) \<and>
    last_of ''mask'' (parts r) = Some (FilePart msk) \<and> last_of ''prompt'' (query r) = None \<longrightarrow>
      edit_args r = Inl [[Key ''query'', Key ''prompt'']] \<and>
      post_edit r = Inl (RequestValidationError [[Key ''query'', Key ''prompt'']])) \<and>
   (last_of ''image'' (parts r) = Some (FilePart img) \<and> last_of ''prompt'' (query r) = Some p \<longrightarrow>
      expand_args r = Inr (img, p) \<and>
      post_expand r = Inr (expand img p)) \<and>
   (last_of ''image'' (parts r) = Some (FilePart img) \<and>
    last_of ''mask'' (parts r) = Some (FilePart msk) \<and> last_of ''prompt'' (query r) = Some p \<longrightarrow>
      edit_args r = Inr (img, msk, p) \<and>
      post_edit r = Inr (edit img msk p)) \<and>
   status_code (RequestValidationError [[Key ''query'', Key ''prompt'']]) = 422"
proof (intro conjI impI)
  assume "last_of ''prompt'' (query r) = None"
  then have e: "isl (expand_args r)" and f: "isl (edit_args r)"
    by (simp_all add: expand_args_def edit_args_def Query_required_def isl_ap)
  from e show "isl (expand_args r)" .
  from f show "isl (edit_args r)" .
  from e show "isl (post_expand r)"
    by (cases "expand_args r") (simp_all add: post_expand_def)
  from f show "isl (post_edit r)"
    by (cases "edit_args r") (simp_all add: post_edit_def)
qed (simp_all add: binding_defs endpoint_defs)

theorem prompt_optional_or_required_witness:
  "post_generate_bg \<lparr>parts = [(''image'', FilePart [1, 2])], query = []\<rparr>
     = Inr \<lparr>chunks = [[1, 2]], media_type = ''image/png''\<rparr> \<and>
   generate_bg_args
       \<lparr>parts = [(''image'', FilePart [1, 2]), (''prompt'', TextPart ''sky'')], query = []\<rparr>
     = Inr ([1, 2], ''sky'') \<and>
   post_inpaint \<lparr>parts = [(''image'', FilePart [1, 2]), (''mask'', FilePart [3])], query = []\<rparr>
     = Inr \<lparr>chunks = [[1, 2]], media_type = ''image/png''\<rparr> \<and>
   inpaint_args
       \<lparr>parts = [(''image'', FilePart [1, 2]), (''mask'', FilePart [3]),
                 (''prompt'', TextPart ''sky'')], query = []\<rparr>
     = Inr ([1, 2], [3], ''sky'') \<and>
   post_expand \<lparr>parts = [(''image'', FilePart [1, 2])], query = []\<rparr>
     = Inl (RequestValidationError [[Key ''query'', Key ''prompt'']]) \<and>
   post_expand
       \<lparr>parts = [(''image'', FilePart [1, 2]), (''prompt'', TextPart ''sky'')], query = []\<rparr>
     = Inl (RequestValidationError [[Key ''query'', Key ''prompt'']]) \<and>
   expand_args \<lparr>parts = [(''image'', FilePart [1, 2])], query = [(''prompt'', ''sky'')]\<rparr>
     = Inr ([1, 2], ''sky'') \<and>
   post_edit \<lparr>parts = [(''image'', FilePart [1, 2]), (''mask'', FilePart [3])], query = []\<rparr>
     = Inl (RequestValidationError [[Key ''query'', Key ''prompt'']]) \<and>
   edit_args
       \<lparr>parts = [(''image'', FilePart [1, 2]), (''mask'', FilePart [3])],
        query = [(''prompt'', ''sky'')]\<rparr>
     = Inr ([1, 2], [3], ''sky'')"
proof -
  let ?i = "\<lparr>parts = [(''image'', FilePart [1, 2])], query = []\<rparr>"
  let ?ip = "\<lparr>parts = [(''image'', FilePart [1, 2]), (''prompt'', TextPart ''sky'')],
              query = []\<rparr>"
  let ?im = "\<lparr>parts = [(''image'', FilePart [1, 2]), (''mask'', FilePart [3])], query = []\<rparr>"
  let ?imp = "\<lparr>parts = [(''image'', FilePart [1, 2]), (''mask'', FilePart [3]),
                        (''prompt'', TextPart ''sky'')], query = []\<rparr>"
  let ?iq = "\<lparr>parts = [(''image'', FilePart [1, 2])], query = [(''prompt'', ''sky'')]\<rparr>"
  let ?imq = "\<lparr>parts = [(''image'', FilePart [1, 2]), (''mask'', FilePart [3])],
               query = [(''prompt'', ''sky'')]\<rparr>"
  have "post_generate_bg ?i = Inr (generate_bg [1, 2] '''')"
    and "post_expand ?i = Inl (RequestValidationError [[Key ''query'', Key ''prompt'']])"
    using prompt_optional_or_required [where r = ?i and img = "[1, 2]"]
    by (simp_all add: last_of_def)
  moreover have "generate_bg_args ?ip = Inr ([1, 2], ''sky'')"
    and "post_expand ?ip = Inl (RequestValidationError [[Key ''query'', Key ''prompt'']])"
    using prompt_optional_or_required [where r = ?ip and img = "[1, 2]" and p = "''sky''"]
    by (simp_all add: last_of_def)
  moreover have "post_inpaint ?im = Inr (inpaint [1, 2] [3] '''')"
    and "post_edit ?im = Inl (RequestValidationError [[Key ''query'', Key ''prompt'']])"
    using prompt_optional_or_required [where r = ?im and img = "[1, 2]" and msk = "[3]"]
    by (simp_all add: last_of_def)
  moreover have "inpaint_args ?imp = Inr ([1, 2], [3], ''sky'')"
    using prompt_optional_or_required
      [where r = ?imp and img = "[1, 2]" and msk = "[3]" and p = "''sky''"]
    by (simp add: last_of_def)
  moreover have "expand_args ?iq = Inr ([1, 2], ''sky'')"
    using prompt_optional_or_required [where r = ?iq and img = "[1, 2]" and p = "''sky''"]
    by (simp add: last_of_def)
  moreover have "edit_args ?imq = Inr ([1, 2], [3], ''sky'')"
    using prompt_optional_or_required
      [where r = ?imq and img = "[1, 2]" and msk = "[3]" and p = "''sky''"]
    by (simp add: last_of_def)
  ultimately show ?thesis
    by (simp add: handler_defs mock_defs)
qed

section \<open>Properties of the pipeline-backed service\<close>

subsection \<open>Auxiliary facts\<close>



lemma startup_event_pipe:
  "pipe (startup_event tlib s) =
     (case from_pretrained tlib ''runwayml/stable-diffusion-v1-5''
             (if cuda_is_available tlib then float16 else float32) False of
        Inl e \<Rightarrow> None
      | Inr p \<Rightarrow>
          (case to_device tlib p (if cuda_is_available tlib then ''cuda'' else ''cpu'') of
             Inl e \<Rightarrow> None
           | Inr p' \<Rightarrow> Some p'))"
  by (simp add: startup_event_def logger_info_def logger_error_def Let_def
      split: sum.splits)

lemma generate_image_not_loaded:
  "pipe s = None \<Longrightarrow>
     generate_image lib request s = (Inl (HTTPException 503 ''Pipeline not loaded''), s)"
  by (simp add: generate_image_def)

lemma generate_image_loaded:
  "pipe s = Some p \<Longrightarrow>
     generate_image lib request s =
       (let s2 = (logger_info (''Generating image with prompt: '' @ prompt request) s)
                   \<lparr>calls := calls s @ [kwargs_of request]\<rparr>
        in case images0 lib p (calls s) (kwargs_of request) of
             Inl e \<Rightarrow> generation_failed e s2
           | Inr image0 \<Rightarrow>
               (case save_png lib image0 of
                  Inl e \<Rightarrow> generation_failed e s2
                | Inr png \<Rightarrow>
                    (Inr \<lparr>chunks = BytesIO_iter png, media_type = ''image/png''\<rparr>,
                     s2)))"
  by (simp add: generate_image_def logger_info_def Let_def split: sum.splits)

lemma generate_image_pipe: "pipe (snd (generate_image lib request s)) = pipe s"
  by (cases "pipe s")
     (simp_all add: generate_image_not_loaded generate_image_loaded generation_failed_def
        logger_info_def logger_error_def Let_def split: sum.splits)

lemma generate_image_errors:
  "fst (generate_image lib request s) = Inl err \<Longrightarrow>
     err = HTTPException 503 ''Pipeline not loaded'' \<and> pipe s = None \<or>
     (\<exists>d. err = HTTPException 500 d) \<and> pipe s \<noteq> None"
  by (cases "pipe s")
     (auto simp: generate_image_not_loaded generate_image_loaded generation_failed_def
        Let_def split: sum.splits)

lemma serve_pipe: "pipe (snd (serve v lib rq s)) = pipe s"
  by (cases rq)
     (simp_all add: health_check_def get_models_def post_txt2img_def
        post_generate_bg_json_def generate_background_def generate_image_pipe
        split: prod.splits sum.splits, (metis generate_image_pipe snd_conv)+)

lemma serve_all_pipe: "pipe (snd (serve_all v lib rqs s)) = pipe s"
proof (induction rqs arbitrary: s)
  case Nil
  show ?case by simp
next
  case (Cons rq rqs)
  obtain r s' where step: "serve v lib rq s = (r, s')"
    by (cases "serve v lib rq s")
  then have "pipe s' = pipe s"
    using serve_pipe [of v lib rq s] by simp
  moreover have "pipe (snd (serve_all v lib rqs s')) = pipe s'"
    by (rule Cons.IH)
  ultimately show ?case
    using step by (cases "serve_all v lib rqs s'") simp
qed




subsection \<open>Errors of the generation endpoint\<close>

text \<open>
  C2, as stated: with a null pipeline handle every request to
  \<open>POST /sdapi/v1/txt2img\<close> is answered 503. It is not: a request whose body does not
  validate, here an object without \<open>prompt\<close>, is answered 422 by the framework before the
  handler runs, also with a null handle.
\<close>

theorem null_handle_invalid_body_422:
  "pipe (module_state :: unit server) = None \<and>
   post_txt2img plain sample_diffusers (Document (JObject [(''width'', JInt 64)])) module_state
     = (Inl (RequestValidationError [[Key ''body'', Key ''prompt'']]), module_state) \<and>
   status_code (RequestValidationError [[Key ''body'', Key ''prompt'']]) = 422 \<and>
   status_code (RequestValidationError [[Key ''body'', Key ''prompt'']]) \<noteq> 503"
  by (simp add: module_state_def post_txt2img_def bind_GenerateRequest_def
      validate_GenerateRequest_def field_def plain_def)

text \<open>
  C2, amended. When the pipeline handle is null, \<open>generate_image\<close> raises the HTTP error 503
  and leaves the state as it was: the pipeline is not invoked. When the handle is not
  null, no error it raises has status 503. In particular every call is answered 503
  before the startup hook has run, and after a startup hook in which loading the
  pipeline or moving it to the device raised; and with a null handle both generation
  routes answer 503 to every request whose body binds to a \<open>GenerateRequest\<close>.
\<close>

theorem not_loaded_503:
  "(pipe s = None \<longrightarrow>
      generate_image lib request s = (Inl (HTTPException 503 ''Pipeline not loaded''), s) \<and>
      status_code (HTTPException 503 ''Pipeline not loaded'') = 503 \<and>
      calls (snd (generate_image lib request s)) = calls s) \<and>
   (pipe s \<noteq> None \<longrightarrow>
      (\<forall>err. fst (generate_image lib request s) = Inl err \<longrightarrow> status_code err \<noteq> 503)) \<and>
   generate_image lib request module_state
     = (Inl (HTTPException 503 ''Pipeline not loaded''), module_state) \<and>
   (from_pretrained tlib ''runwayml/stable-diffusion-v1-5''
        (if cuda_is_available tlib then float16 else float32) False = Inl e \<longrightarrow>
      fst (generate_image lib request (startup_event tlib st))
        = Inl (HTTPException 503 ''Pipeline not loaded'')) \<and>
   (from_pretrained tlib ''runwayml/stable-diffusion-v1-5''
        (if cuda_is_available tlib then float16 else float32) False = Inr p \<and>
    to_device tlib p (if cuda_is_available tlib then ''cuda'' else ''cpu'') = Inl e \<longrightarrow>
      fst (generate_image lib request (startup_event tlib st))
        = Inl (HTTPException 503 ''Pipeline not loaded'')) \<and>
   (pipe s = None \<and> bind_GenerateRequest v b = Inr request \<longrightarrow>
      post_txt2img v lib b s = (Inl (HTTPException 503 ''Pipeline not loaded''), s) \<and>
      post_generate_bg_json v lib b s = (Inl (HTTPException 503 ''Pipeline not loaded''), s))"
proof (intro conjI impI allI)
  assume "pipe s = None"
  then show "generate_image lib request s = (Inl (HTTPException 503 ''Pipeline not loaded''), s)"
    by (rule generate_image_not_loaded)
  then show "calls (snd (generate_image lib request s)) = calls s"
    by simp
next
  show "status_code (HTTPException 503 ''Pipeline not loaded'') = 503"
    by simp
next
  fix err
  assume "pipe s \<noteq> None" and "fst (generate_image lib request s) = Inl err"
  then show "status_code err \<noteq> 503"
    using generate_image_errors [of lib request s err] by auto
next
  show "generate_image lib request module_state
          = (Inl (HTTPException 503 ''Pipeline not loaded''), module_state)"
    by (simp add: generate_image_not_loaded module_state_def)
next
  assume "from_pretrained tlib ''runwayml/stable-diffusion-v1-5''
            (if cuda_is_available tlib then float16 else float32) False = Inl e"
  then have "pipe (startup_event tlib st) = None"
    by (simp add: startup_event_pipe)
  then show "fst (generate_image lib request (startup_event tlib st))
               = Inl (HTTPException 503 ''Pipeline not loaded'')"
    by (simp add: generate_image_not_loaded)
next
  assume "from_pretrained tlib ''runwayml/stable-diffusion-v1-5''
            (if cuda_is_available tlib then float16 else float32) False = Inr p \<and>
          to_device tlib p (if cuda_is_available tlib then ''cuda'' else ''cpu'') = Inl e"
  then have "pipe (startup_event tlib st) = None"
    by (simp add: startup_event_pipe)
  then show "fst (generate_image lib request (startup_event tlib st))
               = Inl (HTTPException 503 ''Pipeline not loaded'')"
    by (simp add: generate_image_not_loaded)
next
  assume bound: "pipe s = None \<and> bind_GenerateRequest v b = Inr request"
  then show "post_txt2img v lib b s = (Inl (HTTPException 503 ''Pipeline not loaded''), s)"
    by (simp add: post_txt2img_def generate_image_not_loaded)
  from bound
  show "post_generate_bg_json v lib b s = (Inl (HTTPException 503 ''Pipeline not loaded''), s)"
    by (simp add: post_generate_bg_json_def generate_background_def generate_image_not_loaded)
qed

theorem not_loaded_503_witness:
  "generate_image sample_diffusers
       \<lparr>prompt = ''a'', width = 512, height = 512,
        num_inference_steps = 20, guidance_scale = Finite 7.5\<rparr>
       (startup_event (sample_torch False) module_state)
     = (Inl (HTTPException 503 ''Pipeline not loaded''),
        startup_event (sample_torch False) module_state) \<and>
   fst (generate_image sample_diffusers
       \<lparr>prompt = ''a'', width = 0, height = 512,
        num_inference_steps = 20, guidance_scale = Finite 7.5\<rparr>
       (startup_event (sample_torch True) module_state))
     = Inl (HTTPException 500 ''size must be positive'') \<and>
   status_code (HTTPException 500 ''size must be positive'') \<noteq> 503 \<and>
   post_txt2img plain sample_diffusers (Document (JObject [(''prompt'', JString ''a'')]))
       (startup_event (sample_torch False) module_state)
     = (Inl (HTTPException 503 ''Pipeline not loaded''),
        startup_event (sample_torch False) module_state) \<and>
   post_generate_bg_json plain sample_diffusers
       (Document (JObject [(''prompt'', JString ''a'')]))
       (startup_event (sample_torch False) module_state)
     = (Inl (HTTPException 503 ''Pipeline not loaded''),
        startup_event (sample_torch False) module_state)"
proof -
  let ?rq = "\<lparr>prompt = ''a'', width = 512, height = 512,
              num_inference_steps = 20, guidance_scale = Finite 7.5\<rparr>"
  let ?b = "Document (JObject [(''prompt'', JString ''a'')])"
  have bound: "bind_GenerateRequest plain ?b = Inr ?rq"
    by (simp add: bind_GenerateRequest_def validate_GenerateRequest_def field_def plain_def)
  have failed: "from_pretrained (sample_torch False) ''runwayml/stable-diffusion-v1-5''
      (if cuda_is_available (sample_torch False) then float16 else float32) False
      = Inl (Exception ''OSError'' ''model not found'')"
    by (simp add: sample_torch_def)
  have null: "pipe (startup_event (sample_torch False) (module_state :: unit server)) = None"
    by (simp add: startup_event_pipe sample_torch_def)
  have loaded: "pipe (startup_event (sample_torch True) (module_state :: unit server)) \<noteq> None"
    by (simp add: startup_event_pipe sample_torch_def)
  have "generate_image sample_diffusers ?rq (startup_event (sample_torch False) module_state)
          = (Inl (HTTPException 503 ''Pipeline not loaded''),
             startup_event (sample_torch False) module_state)"
    using not_loaded_503
      [where s = "startup_event (sample_torch False) (module_state :: unit server)"
         and lib = sample_diffusers and request = ?rq] null
    by blast
  moreover have raised: "fst (generate_image sample_diffusers
       \<lparr>prompt = ''a'', width = 0, height = 512,
        num_inference_steps = 20, guidance_scale = Finite 7.5\<rparr>
       (startup_event (sample_torch True) module_state))
     = Inl (HTTPException 500 ''size must be positive'')"
    by (simp add: generate_image_def startup_event_def sample_torch_def sample_diffusers_def
        module_state_def logger_info_def logger_error_def generation_failed_def
        images0_def kwargs_of_def Let_def)
  moreover have "status_code (HTTPException 500 ''size must be positive'') \<noteq> 503"
    using not_loaded_503
      [where s = "startup_event (sample_torch True) (module_state :: unit server)"
         and lib = sample_diffusers
         and request = "\<lparr>prompt = ''a'', width = 0, height = 512,
                         num_inference_steps = 20, guidance_scale = Finite 7.5\<rparr>"]
      loaded raised
    by blast
  moreover have "post_txt2img plain sample_diffusers ?b
          (startup_event (sample_torch False) module_state)
        = (Inl (HTTPException 503 ''Pipeline not loaded''),
           startup_event (sample_torch False) module_state) \<and>
      post_generate_bg_json plain sample_diffusers ?b
          (startup_event (sample_torch False) module_state)
        = (Inl (HTTPException 503 ''Pipeline not loaded''),
           startup_event (sample_torch False) module_state)"
    using not_loaded_503
      [where s = "startup_event (sample_torch False) (module_state :: unit server)"
         and lib = sample_diffusers and request = ?rq and v = plain and b = ?b]
      null bound
    by blast
  ultimately show ?thesis by simp
qed

text \<open>
  C3. With the pipeline loaded, when \<open>pipe(...).images[0]\<close> raises, or the PNG
  encoding of the image raises, \<open>generate_image\<close> raises the HTTP error 500 whose
  detail is \<open>str(e)\<close> of that exception, unchanged. Every error \<open>generate_image\<close>
  raises is the 503 of the null handle or a 500.
\<close>

theorem generation_exception_500:
  "(pipe s = Some p \<and> images0 lib p (calls s) (kwargs_of request) = Inl e \<longrightarrow>
      fst (generate_image lib request s) = Inl (HTTPException 500 (str_of e))) \<and>
   (pipe s = Some p \<and> images0 lib p (calls s) (kwargs_of request) = Inr img \<and>
    save_png lib img = Inl e \<longrightarrow>
      fst (generate_image lib request s) = Inl (HTTPException 500 (str_of e))) \<and>
   (fst (generate_image lib request s) = Inl err \<longrightarrow>
      err = HTTPException 503 ''Pipeline not loaded'' \<or> (\<exists>d. err = HTTPException 500 d))"
proof (intro conjI impI)
  assume "pipe s = Some p \<and> images0 lib p (calls s) (kwargs_of request) = Inl e"
  then show "fst (generate_image lib request s) = Inl (HTTPException 500 (str_of e))"
    by (simp add: generate_image_loaded generation_failed_def Let_def)
next
  assume "pipe s = Some p \<and> images0 lib p (calls s) (kwargs_of request) = Inr img \<and>
          save_png lib img = Inl e"
  then show "fst (generate_image lib request s) = Inl (HTTPException 500 (str_of e))"
    by (simp add: generate_image_loaded generation_failed_def Let_def)
next
  assume "fst (generate_image lib request s) = Inl err"
  then show "err = HTTPException 503 ''Pipeline not loaded'' \<or> (\<exists>d. err = HTTPException 500 d)"
    using generate_image_errors [of lib request s err] by blast
qed

theorem generation_exception_500_witness:
  "fst (generate_image sample_diffusers
       \<lparr>prompt = ''a'', width = 0, height = 512,
        num_inference_steps = 20, guidance_scale = Finite 7.5\<rparr>
       \<lparr>pipe = Some (), calls = [], logged = []\<rparr>)
     = Inl (HTTPException 500 ''size must be positive'') \<and>
   fst (generate_image sample_diffusers
       \<lparr>prompt = ''a'', width = 64, height = 64,
        num_inference_steps = 20, guidance_scale = Finite 7.5\<rparr>
       \<lparr>pipe = Some (), calls = [], logged = []\<rparr>)
     = Inl (HTTPException 500 ''cannot write this size'')"
proof -
  let ?s = "\<lparr>pipe = Some (), calls = [], logged = []\<rparr> :: unit server"
  let ?r0 = "\<lparr>prompt = ''a'', width = 0, height = 512,
              num_inference_steps = 20, guidance_scale = Finite 7.5\<rparr>"
  let ?r64 = "\<lparr>prompt = ''a'', width = 64, height = 64,
               num_inference_steps = 20, guidance_scale = Finite 7.5\<rparr>"
  have a: "pipe ?s = Some () \<and>
           images0 sample_diffusers () (calls ?s) (kwargs_of ?r0)
             = Inl (Exception ''ValueError'' ''size must be positive'')"
    by (simp add: images0_def sample_diffusers_def kwargs_of_def)
  have b: "pipe ?s = Some () \<and>
           images0 sample_diffusers () (calls ?s) (kwargs_of ?r64) = Inr (64, 64) \<and>
           save_png sample_diffusers (64, 64)
             = Inl (Exception ''OSError'' ''cannot write this size'')"
    by (simp add: images0_def sample_diffusers_def kwargs_of_def)
  show ?thesis
    using a b
      generation_exception_500
        [where s = ?s and p = "()" and lib = sample_diffusers and request = ?r0
           and e = "Exception ''ValueError'' ''size must be positive''"]
      generation_exception_500
        [where s = ?s and p = "()" and lib = sample_diffusers and request = ?r64
           and e = "Exception ''OSError'' ''cannot write this size''" and img = "(64, 64)"]
    by simp
qed

subsection \<open>Health and model listing\<close>

text \<open>
  C4. \<open>GET /health\<close> always returns an object with the fields \<open>status\<close> and
  \<open>models\<close> and leaves the state as it was. The status is \<open>unhealthy\<close> and the list
  of models is empty exactly when the pipeline handle is null, as it is before the
  startup hook and after a startup hook in which loading raised; otherwise the status
  is \<open>healthy\<close> and the list has the one model.
\<close>

theorem health_reports_pipeline:
  "health_check s =
     (if pipe s = None then \<lparr>status = ''unhealthy'', models = []\<rparr>
      else \<lparr>status = ''healthy'', models = [''stable-diffusion-v1-5'']\<rparr>, s) \<and>
   (status (fst (health_check s)) = ''unhealthy'') = (pipe s = None) \<and>
   (models (fst (health_check s)) = []) = (pipe s = None) \<and>
   (status (fst (health_check s)) = ''healthy'') = (pipe s \<noteq> None) \<and>
   (models (fst (health_check s)) = [''stable-diffusion-v1-5'']) = (pipe s \<noteq> None) \<and>
   fst (health_check module_state) = \<lparr>status = ''unhealthy'', models = []\<rparr> \<and>
   (from_pretrained tlib ''runwayml/stable-diffusion-v1-5''
        (if cuda_is_available tlib then float16 else float32) False = Inl e \<longrightarrow>
      fst (health_check (startup_event tlib st)) = \<lparr>status = ''unhealthy'', models = []\<rparr>)"
  by (simp add: health_check_def module_state_def startup_event_pipe)

theorem health_reports_pipeline_witness:
  "fst (health_check (startup_event (sample_torch False) module_state))
     = \<lparr>status = ''unhealthy'', models = []\<rparr> \<and>
   fst (health_check (startup_event (sample_torch True) module_state))
     = \<lparr>status = ''healthy'', models = [''stable-diffusion-v1-5'']\<rparr>"
proof -
  have failed: "from_pretrained (sample_torch False) ''runwayml/stable-diffusion-v1-5''
      (if cuda_is_available (sample_torch False) then float16 else float32) False
      = Inl (Exception ''OSError'' ''model not found'')"
    by (simp add: sample_torch_def)
  have loaded: "pipe (startup_event (sample_torch True) (module_state :: unit server)) \<noteq> None"
    by (simp add: startup_event_pipe sample_torch_def)
  have "fst (health_check (startup_event (sample_torch False) (module_state :: unit server)))
          = \<lparr>status = ''unhealthy'', models = []\<rparr>"
    using failed
      health_reports_pipeline
        [where s = "module_state :: unit server" and tlib = "sample_torch False"
           and st = "module_state :: unit server"
           and e = "Exception ''OSError'' ''model not found''"]
    by blast
  moreover have "fst (health_check (startup_event (sample_torch True) (module_state :: unit server)))
          = \<lparr>status = ''healthy'', models = [''stable-diffusion-v1-5'']\<rparr>"
    using loaded
      health_reports_pipeline
        [where s = "startup_event (sample_torch True) (module_state :: unit server)",
           THEN conjunct1]
    by simp
  ultimately show ?thesis by simp
qed

text \<open>
  C5, as stated: the response of \<open>GET /health\<close> is the same whatever the pipeline
  handle. It is not: with a loaded handle and with a null handle the two responses
  differ.
\<close>

theorem health_not_static:
  "fst (health_check \<lparr>pipe = Some (), calls = [], logged = []\<rparr>)
     = \<lparr>status = ''healthy'', models = [''stable-diffusion-v1-5'']\<rparr> \<and>
   fst (health_check \<lparr>pipe = (None :: unit option), calls = [], logged = []\<rparr>)
     = \<lparr>status = ''unhealthy'', models = []\<rparr> \<and>
   fst (health_check \<lparr>pipe = Some (), calls = [], logged = []\<rparr>)
     \<noteq> fst (health_check \<lparr>pipe = (None :: unit option), calls = [], logged = []\<rparr>)"
  by (simp add: health_check_def)

text \<open>
  C5, amended. \<open>GET /sdapi/v1/sd-models\<close> returns the same response in any two
  states. \<open>GET /health\<close> returns the same response in any two states that agree on
  whether the pipeline handle is null.
\<close>

theorem status_static_up_to_null:
  "fst (get_models s) = fst (get_models s') \<and>
   fst (get_models s)
     = [[(''title'', ''stable-diffusion-v1-5''), (''model_name'', ''stable-diffusion-v1-5'')]] \<and>
   ((pipe s = None) = (pipe s' = None) \<longrightarrow> fst (health_check s) = fst (health_check s'))"
  by (simp add: get_models_def health_check_def)

theorem status_static_up_to_null_witness:
  "fst (health_check \<lparr>pipe = Some (1 :: nat), calls = [], logged = []\<rparr>)
     = fst (health_check
         \<lparr>pipe = Some (2 :: nat), calls = [(''a'', 512, 512, 20, Finite 7.5)],
          logged = [(INFO, ''Generating image with prompt: a'')]\<rparr>) \<and>
   fst (get_models \<lparr>pipe = Some (1 :: nat), calls = [], logged = []\<rparr>)
     = fst (get_models \<lparr>pipe = (None :: nat option), calls = [], logged = []\<rparr>)"
  using
    status_static_up_to_null
      [where s = "\<lparr>pipe = Some (1 :: nat), calls = [], logged = []\<rparr>"
         and s' = "\<lparr>pipe = Some (2 :: nat), calls = [(''a'', 512, 512, 20, Finite 7.5)],
                   logged = [(INFO, ''Generating image with prompt: a'')]\<rparr>"]
    status_static_up_to_null
      [where s = "\<lparr>pipe = Some (1 :: nat), calls = [], logged = []\<rparr>"
         and s' = "\<lparr>pipe = (None :: nat option), calls = [], logged = []\<rparr>"]
  by simp

subsection \<open>The pipeline handle\<close>

text \<open>
  C8. The pipeline handle is one variable of the process, null when the module is
  loaded. The startup hook assigns it: the loaded pipeline when loading and moving to
  the device both succeed, null when either raises. No handler assigns it: after
  \<open>health_check\<close>, \<open>get_models\<close>, \<open>generate_image\<close> and \<open>generate_background\<close>, after
  any request to one of the four routes, and after any sequence of such requests, the
  handle is the one before.
\<close>

theorem pipe_read_only:
  "pipe (module_state :: 'p server) = None \<and>
   pipe (startup_event tlib st) =
     (case from_pretrained tlib ''runwayml/stable-diffusion-v1-5''
             (if cuda_is_available tlib then float16 else float32) False of
        Inl e \<Rightarrow> None
      | Inr p \<Rightarrow>
          (case to_device tlib p (if cuda_is_available tlib then ''cuda'' else ''cpu'') of
             Inl e \<Rightarrow> None
           | Inr p' \<Rightarrow> Some p')) \<and>
   pipe (snd (health_check s)) = pipe s \<and>
   pipe (snd (get_models s)) = pipe s \<and>
   pipe (snd (generate_image lib request s)) = pipe s \<and>
   pipe (snd (generate_background lib request s)) = pipe s \<and>
   pipe (snd (serve v lib rq s)) = pipe s \<and>
   pipe (snd (serve_all v lib rqs s)) = pipe s"
  by (simp add: module_state_def startup_event_pipe health_check_def get_models_def
      generate_background_def generate_image_pipe serve_pipe serve_all_pipe)

subsection \<open>The second generation route\<close>

text \<open>
  C9. In the pipeline-backed service \<open>POST /generate_bg\<close> binds the same JSON
  \<open>GenerateRequest\<close> body as \<open>POST /sdapi/v1/txt2img\<close>, and in every state and on
  every body it gives the same result and leaves the same state, errors included.
\<close>

theorem generate_bg_same_as_txt2img:
  "generate_background lib request s = generate_image lib request s \<and>
   post_generate_bg_json v lib b s = post_txt2img v lib b s \<and>
   serve v lib (PostGenerateBg b) s = serve v lib (PostTxt2img b) s"
  by (simp add: generate_background_def post_generate_bg_json_def post_txt2img_def
      split: sum.splits)

subsection \<open>The request body\<close>











end
